theory Spec2Isabelle
  imports Complex_Main
begin

section \<open>Straight-line trajectories on surfaces glued from polygons\<close>

text \<open>
  A shallow embedding of \<^verbatim>\<open>flatsurf/geometry/straight_line_trajectory.py\<close>.
  Exact numbers (elements of a Sage number field) are elements of an arbitrary field;
  the concrete surfaces further down use the rationals. Every exception raised by the
  file itself is a value of \<open>error\<close>; a function that can raise returns \<open>error + 'a\<close>
  with \<open>Inl\<close> carrying the exception.
\<close>

subsection \<open>Errors and vectors\<close>

datatype error =
    ValueError string
  | TypeError string
  | RuntimeError string
  | IndexError string
  | ZeroDivisionError string

type_synonym 'a vec2 = "'a \<times> 'a"

definition vec_add :: "('a::field) vec2 \<Rightarrow> 'a vec2 \<Rightarrow> 'a vec2" where
  "vec_add u v = (fst u + fst v, snd u + snd v)"

definition vec_sub :: "('a::field) vec2 \<Rightarrow> 'a vec2 \<Rightarrow> 'a vec2" where
  "vec_sub u v = (fst u - fst v, snd u - snd v)"

definition vec_scale :: "('a::field) \<Rightarrow> 'a vec2 \<Rightarrow> 'a vec2" where
  "vec_scale a u = (a * fst u, a * snd u)"

definition vec_neg :: "('a::field) vec2 \<Rightarrow> 'a vec2" where
  "vec_neg u = (- fst u, - snd u)"

definition vec_div :: "('a::field) vec2 \<Rightarrow> 'a \<Rightarrow> 'a vec2" where
  "vec_div u a = (fst u / a, snd u / a)"

subsection \<open>The colinearity helper\<close>

text \<open>
  \<^verbatim>\<open>get_linearity_coeff(u, v)\<close>: the branches in the order of the source. A Sage
  field element is truthy exactly when it is not zero.
\<close>

definition get_linearity_coeff :: "('a::field) vec2 \<Rightarrow> 'a vec2 \<Rightarrow> error + 'a" where
  "get_linearity_coeff u v =
     (if fst u \<noteq> 0 then
        (let a = fst v / fst u in
         if snd v \<noteq> a * snd u then Inl (ValueError ''non colinear'') else Inr a)
      else if fst v \<noteq> 0 then Inl (ValueError ''non colinear'')
      else if snd u \<noteq> 0 then Inr (snd v / snd u)
      else Inl (ValueError ''zero vector''))"


subsection \<open>Tangent vectors and the surface (collaborators)\<close>

text \<open>
  The tangent bundle, the polygons and the surface live in other modules of the package
  (\<^verbatim>\<open>tangent_bundle\<close>, \<^verbatim>\<open>polygon\<close>, \<^verbatim>\<open>similarity_surface\<close>). The
  trajectory code only calls them, so they enter the model as data: a tangent vector is a
  record of what the code reads from it, and a surface is a record of the functions the
  code calls on it. A concrete surface (the square torus) is given further down.
\<close>

datatype position = INTERIOR | EDGE_INTERIOR nat | VERTEX nat

record ('l, 'a) tangent_vector =
  polygon_label :: 'l
  point :: "'a vec2"
  vector :: "'a vec2"
  position :: position

text \<open>
  Modelled from the spec: \<^verbatim>\<open>TangentVector.is_based_at_singularity()\<close> is not part of
  the file; the spec defines a singular endpoint as one whose position is \<open>VERTEX\<close>.
\<close>

definition is_based_at_singularity :: "('l, 'a) tangent_vector \<Rightarrow> bool" where
  "is_based_at_singularity v = (case position v of VERTEX k \<Rightarrow> True | _ \<Rightarrow> False)"


text \<open>The interval exchange map of one polygon (\<^verbatim>\<open>polygon.flow_map(direction)\<close>).\<close>

record 'a flow_polygon_map =
  forward_image :: "nat \<Rightarrow> 'a \<Rightarrow> nat \<times> 'a"
  backward_image :: "nat \<Rightarrow> 'a \<Rightarrow> nat \<times> 'a"
  length_bot :: "nat \<Rightarrow> 'a"
  length_top :: "nat \<Rightarrow> 'a"

record ('l, 'a) surface =
  forward_to_polygon_boundary :: "('l, 'a) tangent_vector \<Rightarrow> ('l, 'a) tangent_vector"
  tv_invert :: "('l, 'a) tangent_vector \<Rightarrow> ('l, 'a) tangent_vector"
  differs_by_scaling :: "('l, 'a) tangent_vector \<Rightarrow> ('l, 'a) tangent_vector \<Rightarrow> bool"
  tangent_vector :: "'l \<Rightarrow> 'a vec2 \<Rightarrow> 'a vec2 \<Rightarrow> ('l, 'a) tangent_vector"
  opposite_edge :: "'l \<Rightarrow> nat \<Rightarrow> 'l \<times> nat"
  polygon_vertex :: "'l \<Rightarrow> nat \<Rightarrow> 'a vec2"
  polygon_edge :: "'l \<Rightarrow> nat \<Rightarrow> 'a vec2"
  flow_map :: "'l \<Rightarrow> 'a vec2 \<Rightarrow> 'a flow_polygon_map"

subsection \<open>SegmentInPolygon\<close>

record ('l, 'a) segment =
  seg_start :: "('l, 'a) tangent_vector"
  seg_end :: "('l, 'a) tangent_vector"

text \<open>
  \<^verbatim>\<open>SegmentInPolygon.__init__(start, end=None)\<close>: with an \<open>end\<close> the pair is stored
  as it is; without, the end is the forward projection of the given vector and the start
  the forward projection of that end.
\<close>

definition SegmentInPolygon ::
  "('l, 'a) surface \<Rightarrow> ('l, 'a) tangent_vector \<Rightarrow> ('l, 'a) tangent_vector option
     \<Rightarrow> ('l, 'a) segment" where
  "SegmentInPolygon S start end_opt =
     (case end_opt of
        Some e \<Rightarrow> \<lparr>seg_start = start, seg_end = e\<rparr>
      | None \<Rightarrow>
          (let e = forward_to_polygon_boundary S start
           in \<lparr>seg_start = forward_to_polygon_boundary S e, seg_end = e\<rparr>))"

text \<open>\<^verbatim>\<open>__eq__\<close>: both objects are segments, so the type test holds.\<close>

definition segment_eq :: "('l, 'a) segment \<Rightarrow> ('l, 'a) segment \<Rightarrow> bool" where
  "segment_eq s t = (seg_start s = seg_start t \<and> seg_end s = seg_end t)"

definition start_is_singular :: "('l, 'a) segment \<Rightarrow> bool" where
  "start_is_singular s = is_based_at_singularity (seg_start s)"

definition end_is_singular :: "('l, 'a) segment \<Rightarrow> bool" where
  "end_is_singular s = is_based_at_singularity (seg_end s)"


definition SegmentInPolygon_invert ::
  "('l, 'a) surface \<Rightarrow> ('l, 'a) segment \<Rightarrow> ('l, 'a) segment" where
  "SegmentInPolygon_invert S s = SegmentInPolygon S (seg_end s) (Some (seg_start s))"

definition SegmentInPolygon_next ::
  "('l, 'a) surface \<Rightarrow> ('l, 'a) segment \<Rightarrow> error + ('l, 'a) segment" where
  "SegmentInPolygon_next S s =
     (if end_is_singular s then Inl (ValueError ''Cannot continue from singularity'')
      else Inr (SegmentInPolygon S (tv_invert S (seg_end s)) None))"

text \<open>\<^verbatim>\<open>previous()\<close> tests \<^verbatim>\<open>self.end_is_singular()\<close>, as the source does.\<close>

definition SegmentInPolygon_previous ::
  "('l, 'a) surface \<Rightarrow> ('l, 'a) segment \<Rightarrow> error + ('l, 'a) segment" where
  "SegmentInPolygon_previous S s =
     (if end_is_singular s then Inl (ValueError ''Cannot continue from singularity'')
      else Inr (SegmentInPolygon_invert S
                  (SegmentInPolygon S (tv_invert S (seg_start s)) None)))"

subsection \<open>StraightLineTrajectory\<close>

text \<open>
  The deque \<^verbatim>\<open>_segments\<close> is a list (append at the right, \<^verbatim>\<open>appendleft\<close> at the
  left); \<^verbatim>\<open>_forward\<close> and \<^verbatim>\<open>_backward\<close> are optional tangent vectors, Python's
  \<^verbatim>\<open>None\<close> being \<open>None\<close>. The constructor puts one segment into the deque and no
  method removes any, so \<^verbatim>\<open>_segments[0]\<close> and \<^verbatim>\<open>_segments[-1]\<close> are \<open>hd\<close> and
  \<open>last\<close> of a list that is never empty (lemma \<open>StraightLineTrajectory_flow_nonempty\<close>).
\<close>

record ('l, 'a) StraightLineTrajectory =
  segments :: "('l, 'a) segment list"
  forward :: "('l, 'a) tangent_vector option"
  backward :: "('l, 'a) tangent_vector option"

definition initial_tangent_vector ::
  "('l, 'a) StraightLineTrajectory \<Rightarrow> ('l, 'a) tangent_vector" where
  "initial_tangent_vector t = seg_start (hd (segments t))"

definition terminal_tangent_vector ::
  "('l, 'a) StraightLineTrajectory \<Rightarrow> ('l, 'a) tangent_vector" where
  "terminal_tangent_vector t = seg_end (last (segments t))"

definition setup_forward ::
  "('l, 'a) surface \<Rightarrow> ('l, 'a) StraightLineTrajectory \<Rightarrow> ('l, 'a) StraightLineTrajectory" where
  "setup_forward S t =
     (let v = terminal_tangent_vector t
      in if is_based_at_singularity v then t\<lparr>forward := None\<rparr>
         else t\<lparr>forward := Some (tv_invert S v)\<rparr>)"

definition setup_backward ::
  "('l, 'a) surface \<Rightarrow> ('l, 'a) StraightLineTrajectory \<Rightarrow> ('l, 'a) StraightLineTrajectory" where
  "setup_backward S t =
     (let v = initial_tangent_vector t
      in if is_based_at_singularity v then t\<lparr>backward := None\<rparr>
         else t\<lparr>backward := Some (tv_invert S v)\<rparr>)"

definition StraightLineTrajectory_init ::
  "('l, 'a) surface \<Rightarrow> ('l, 'a) tangent_vector \<Rightarrow> ('l, 'a) StraightLineTrajectory" where
  "StraightLineTrajectory_init S v =
     setup_backward S (setup_forward S
       \<lparr>segments = [SegmentInPolygon S v None], forward = None, backward = None\<rparr>)"

definition combinatorial_length :: "('l, 'a) StraightLineTrajectory \<Rightarrow> nat" where
  "combinatorial_length t = length (segments t)"

definition is_forward_separatrix :: "('l, 'a) StraightLineTrajectory \<Rightarrow> bool" where
  "is_forward_separatrix t = (forward t = None)"

definition is_backward_separatrix :: "('l, 'a) StraightLineTrajectory \<Rightarrow> bool" where
  "is_backward_separatrix t = (backward t = None)"

definition is_saddle_connection :: "('l, 'a) StraightLineTrajectory \<Rightarrow> bool" where
  "is_saddle_connection t = (forward t = None \<and> backward t = None)"

text \<open>
  \<^verbatim>\<open>is_closed()\<close>: Python's \<^verbatim>\<open>and\<close> evaluates \<^verbatim>\<open>differs_by_scaling\<close> only when
  \<^verbatim>\<open>_forward\<close> is not \<^verbatim>\<open>None\<close>; the \<open>case\<close> keeps that order.
\<close>

definition is_closed :: "('l, 'a) surface \<Rightarrow> ('l, 'a) StraightLineTrajectory \<Rightarrow> bool" where
  "is_closed S t =
     (case forward t of
        None \<Rightarrow> False
      | Some f \<Rightarrow> differs_by_scaling S f (initial_tangent_vector t))"

text \<open>
  \<^verbatim>\<open>flow(steps)\<close>: the two \<^verbatim>\<open>while\<close> loops, the first returning the count it
  leaves for the second. Each iteration moves \<open>steps\<close> one closer to zero, which is the
  termination measure. Inside a loop the cached vector is not \<^verbatim>\<open>None\<close>, by the loop
  test; the \<open>None\<close> branch of the \<open>case\<close> is never taken.
\<close>

function flow_forward_loop ::
  "('l, 'a) surface \<Rightarrow> ('l, 'a) StraightLineTrajectory \<Rightarrow> int
     \<Rightarrow> ('l, 'a) StraightLineTrajectory \<times> int" where
  "flow_forward_loop S t steps =
     (if steps > 0 \<and> \<not> is_forward_separatrix t \<and> \<not> is_closed S t then
        (case forward t of
           None \<Rightarrow> (t, steps)
         | Some f \<Rightarrow>
             flow_forward_loop S
               (setup_forward S (t\<lparr>segments := segments t @ [SegmentInPolygon S f None]\<rparr>))
               (steps - 1))
      else (t, steps))"
  by pat_completeness auto
termination
  by (relation "measure (\<lambda>(S, t, steps). nat steps)") auto

function flow_backward_loop ::
  "('l, 'a) surface \<Rightarrow> ('l, 'a) StraightLineTrajectory \<Rightarrow> int
     \<Rightarrow> ('l, 'a) StraightLineTrajectory \<times> int" where
  "flow_backward_loop S t steps =
     (if steps < 0 \<and> \<not> is_backward_separatrix t \<and> \<not> is_closed S t then
        (case backward t of
           None \<Rightarrow> (t, steps)
         | Some b \<Rightarrow>
             flow_backward_loop S
               (setup_backward S
                  (t\<lparr>segments :=
                       SegmentInPolygon_invert S (SegmentInPolygon S b None) # segments t\<rparr>))
               (steps + 1))
      else (t, steps))"
  by pat_completeness auto
termination
  by (relation "measure (\<lambda>(S, t, steps). nat (- steps))") auto

definition StraightLineTrajectory_flow ::
  "('l, 'a) surface \<Rightarrow> ('l, 'a) StraightLineTrajectory \<Rightarrow> int
     \<Rightarrow> ('l, 'a) StraightLineTrajectory" where
  "StraightLineTrajectory_flow S t steps =
     (let (t1, steps1) = flow_forward_loop S t steps
      in fst (flow_backward_loop S t1 steps1))"


subsection \<open>AbstractStraightLineTrajectory.coding\<close>





subsection \<open>StraightLineTrajectoryTranslation\<close>

text \<open>
  The object keeps the direction \<^verbatim>\<open>_vector\<close> and the deque \<^verbatim>\<open>_points\<close> of triples
  \<open>(p, e, x)\<close>; the surface \<^verbatim>\<open>_s\<close> is the parameter \<open>S\<close>. \<^verbatim>\<open>_get_iet(label)\<close>
  memoises \<^verbatim>\<open>polygon.flow_map(self._vector)\<close> in a dictionary; the call has no effect
  besides, so the model calls \<open>flow_map\<close> each time.
\<close>

type_synonym ('l, 'a) triple = "'l \<times> nat \<times> 'a"

record ('l, 'a) StraightLineTrajectoryTranslation =
  direction :: "'a vec2"
  points :: "('l, 'a) triple list"

definition offset :: "('l, 'a) triple \<Rightarrow> 'a" where
  "offset t = snd (snd t)"

definition get_iet ::
  "('l, 'a) surface \<Rightarrow> ('l, 'a) StraightLineTrajectoryTranslation \<Rightarrow> 'l
     \<Rightarrow> 'a flow_polygon_map" where
  "get_iet S T label = flow_map S label (direction T)"

text \<open>
  The constructor. \<open>start_triple\<close> is the part of its body that turns the start vector
  of the first segment into the triple \<open>(p, i, x)\<close>; \<open>d\<close> is \<^verbatim>\<open>self._vector\<close>, the
  direction handed to \<^verbatim>\<open>flow_map\<close>.
\<close>

definition start_triple ::
  "('l, 'a::field) surface \<Rightarrow> 'a vec2 \<Rightarrow> ('l, 'a) tangent_vector
     \<Rightarrow> error + ('l, 'a) triple" where
  "start_triple S d start =
     (case (case position start of
              EDGE_INTERIOR e \<Rightarrow> Inr e
            | VERTEX k \<Rightarrow> Inr k
            | INTERIOR \<Rightarrow> Inl (RuntimeError ''PROBLEM!'')) of
        Inl err \<Rightarrow> Inl err
      | Inr i \<Rightarrow>
          (let p = polygon_label start;
               iet = flow_map S p d
           in case get_linearity_coeff
                     (vec_sub (polygon_vertex S p (i + 1)) (polygon_vertex S p i))
                     (vec_sub (point start) (polygon_vertex S p i)) of
                Inl err \<Rightarrow> Inl err
              | Inr x \<Rightarrow> Inr (p, i, x * length_bot iet i)))"

definition StraightLineTrajectoryTranslation_init ::
  "('l, 'a::field) surface \<Rightarrow> ('l, 'a) tangent_vector
     \<Rightarrow> error + ('l, 'a) StraightLineTrajectoryTranslation" where
  "StraightLineTrajectoryTranslation_init S v =
     (case start_triple S (vector v) (seg_start (SegmentInPolygon S v None)) of
        Inl err \<Rightarrow> Inl err
      | Inr t \<Rightarrow> Inr \<lparr>direction = vector v, points = [t]\<rparr>)"

text \<open>\<^verbatim>\<open>_next(p, e, x)\<close> and \<^verbatim>\<open>_previous(p, e, x)\<close>.\<close>

definition next_triple ::
  "('l, 'a) surface \<Rightarrow> ('l, 'a) StraightLineTrajectoryTranslation \<Rightarrow> ('l, 'a) triple
     \<Rightarrow> ('l, 'a) triple" where
  "next_triple S T t =
     (case t of (p, e, x) \<Rightarrow>
        (case forward_image (get_iet S T p) e x of (e1, x1) \<Rightarrow>
           (case opposite_edge S p e1 of (p2, e2) \<Rightarrow> (p2, e2, x1))))"

definition previous_triple ::
  "('l, 'a) surface \<Rightarrow> ('l, 'a) StraightLineTrajectoryTranslation \<Rightarrow> ('l, 'a) triple
     \<Rightarrow> ('l, 'a) triple" where
  "previous_triple S T t =
     (case t of (p, e, x) \<Rightarrow>
        (case opposite_edge S p e of (p1, e1) \<Rightarrow>
           (case backward_image (get_iet S T p1) e1 x of (e2, x2) \<Rightarrow> (p1, e2, x2))))"

definition translation_combinatorial_length ::
  "('l, 'a) StraightLineTrajectoryTranslation \<Rightarrow> nat" where
  "translation_combinatorial_length T = length (points T)"


definition translation_is_forward_separatrix ::
  "('l, 'a::zero) surface \<Rightarrow> ('l, 'a) StraightLineTrajectoryTranslation \<Rightarrow> bool" where
  "translation_is_forward_separatrix S T = (offset (next_triple S T (last (points T))) = 0)"

definition translation_is_backward_separatrix ::
  "('l, 'a::zero) StraightLineTrajectoryTranslation \<Rightarrow> bool" where
  "translation_is_backward_separatrix T = (offset (hd (points T)) = 0)"

definition translation_is_saddle_connection ::
  "('l, 'a::zero) surface \<Rightarrow> ('l, 'a) StraightLineTrajectoryTranslation \<Rightarrow> bool" where
  "translation_is_saddle_connection S T =
     (translation_is_forward_separatrix S T \<and> translation_is_backward_separatrix T)"

text \<open>
  \<^verbatim>\<open>flow(steps)\<close>, the branch \<^verbatim>\<open>steps > 0\<close>: the \<^verbatim>\<open>for\<close> loop over
  \<^verbatim>\<open>range(steps)\<close> with the running triple \<open>t\<close>. The second component of the result
  counts the calls of \<^verbatim>\<open>_next\<close>; it is a ghost value that the source does not keep.
\<close>

fun translation_flow_forward ::
  "('l, 'a::zero) surface \<Rightarrow> ('l, 'a) StraightLineTrajectoryTranslation \<Rightarrow> ('l, 'a) triple
     \<Rightarrow> nat \<Rightarrow> ('l, 'a) StraightLineTrajectoryTranslation \<times> nat" where
  "translation_flow_forward S T t 0 = (T, 0)"
| "translation_flow_forward S T t (Suc n) =
     (let t' = next_triple S T t
      in if t' = hd (points T) \<or> offset t' = 0 then (T, 1)
         else (case translation_flow_forward S (T\<lparr>points := points T @ [t']\<rparr>) t' n of
                 (T', k) \<Rightarrow> (T', Suc k)))"

text \<open>The branch \<^verbatim>\<open>steps < 0\<close>: the loop over \<^verbatim>\<open>range(-steps)\<close>.\<close>

fun translation_flow_backward ::
  "('l, 'a::zero) surface \<Rightarrow> ('l, 'a) StraightLineTrajectoryTranslation \<Rightarrow> ('l, 'a) triple
     \<Rightarrow> nat \<Rightarrow> ('l, 'a) StraightLineTrajectoryTranslation" where
  "translation_flow_backward S T t 0 = T"
| "translation_flow_backward S T t (Suc n) =
     (if offset t = 0 then T
      else (let t' = previous_triple S T t
            in if t' = last (points T) then T
               else translation_flow_backward S (T\<lparr>points := t' # points T\<rparr>) t' n))"

definition translation_flow_counted ::
  "('l, 'a::zero) surface \<Rightarrow> ('l, 'a) StraightLineTrajectoryTranslation \<Rightarrow> int
     \<Rightarrow> ('l, 'a) StraightLineTrajectoryTranslation \<times> nat" where
  "translation_flow_counted S T steps =
     (if steps > 0 then translation_flow_forward S T (last (points T)) (nat steps)
      else if steps < 0 then (translation_flow_backward S T (hd (points T)) (nat (- steps)), 0)
      else (T, 0))"

definition StraightLineTrajectoryTranslation_flow ::
  "('l, 'a::zero) surface \<Rightarrow> ('l, 'a) StraightLineTrajectoryTranslation \<Rightarrow> int
     \<Rightarrow> ('l, 'a) StraightLineTrajectoryTranslation" where
  "StraightLineTrajectoryTranslation_flow S T steps = fst (translation_flow_counted S T steps)"


text \<open>
  The triples that \<open>k\<close> successive calls of \<^verbatim>\<open>_next\<close> produce from the triple
  \<open>t\<close>: the first, second, ... image of \<open>t\<close>.
\<close>

definition appended ::
  "('l, 'a) surface \<Rightarrow> ('l, 'a) StraightLineTrajectoryTranslation \<Rightarrow> ('l, 'a) triple \<Rightarrow> nat
     \<Rightarrow> ('l, 'a) triple list" where
  "appended S T t k = map (\<lambda>i. (next_triple S T ^^ Suc i) t) [0 ..< k]"


text \<open>
  \<^verbatim>\<open>segment(i)\<close>: \<^verbatim>\<open>self._points[i]\<close> is Python indexing (a negative index counts
  from the right, an index out of range raises), and the two divisions raise on a zero
  length.
\<close>

definition py_index :: "'x list \<Rightarrow> int \<Rightarrow> error + 'x" where
  "py_index xs i =
     (if 0 \<le> i \<and> i < int (length xs) then Inr (xs ! nat i)
      else if i < 0 \<and> - int (length xs) \<le> i then Inr (xs ! nat (int (length xs) + i))
      else Inl (IndexError ''deque index out of range''))"

definition translation_segment ::
  "('l, 'a::field) surface \<Rightarrow> ('l, 'a) StraightLineTrajectoryTranslation \<Rightarrow> int
     \<Rightarrow> error + ('l, 'a) segment" where
  "translation_segment S T i =
     (case py_index (points T) i of
        Inl err \<Rightarrow> Inl err
      | Inr (lab, e0, x0) \<Rightarrow>
          (let iet = get_iet S T lab in
           case forward_image iet e0 x0 of (e1, x1) \<Rightarrow>
             (let l0 = length_bot iet e0; l1 = length_top iet e1
              in if l0 = 0 \<or> l1 = 0 then Inl (ZeroDivisionError ''division by zero'')
                 else
                   (let point0 = vec_add (polygon_vertex S lab e0)
                                   (vec_div (vec_scale x0 (polygon_edge S lab e0)) l0);
                        point1 = vec_add (polygon_vertex S lab e1)
                                   (vec_div (vec_scale (l1 - x1) (polygon_edge S lab e1)) l1);
                        v0 = tangent_vector S lab point0 (direction T);
                        v1 = tangent_vector S lab point1 (vec_neg (direction T))
                    in Inr (SegmentInPolygon S v0 (Some v1))))))"

text \<open>
  \<^verbatim>\<open>segments()\<close> is the comprehension
  \<^verbatim>\<open>[self.segment(i) for i in self.combinatorial_length()]\<close>. What a \<^verbatim>\<open>for\<close>
  clause may iterate over is decided at run time: a \<^verbatim>\<open>range\<close> yields its indices, an
  \<^verbatim>\<open>int\<close> has no iterator and raises \<^verbatim>\<open>TypeError\<close>. \<open>py_iter\<close> is that rule and
  \<open>comprehension\<close> the evaluation of the comprehension, which stops at the first
  exception.
\<close>

datatype py_iterable = PyInt int | PyRange int

definition py_iter :: "py_iterable \<Rightarrow> error + int list" where
  "py_iter obj =
     (case obj of
        PyInt n \<Rightarrow> Inl (TypeError ''int object is not iterable'')
      | PyRange n \<Rightarrow> Inr (map int [0 ..< nat n]))"

fun collect :: "(error + 'x) list \<Rightarrow> error + 'x list" where
  "collect [] = Inr []"
| "collect (r # rs) =
     (case r of
        Inl err \<Rightarrow> Inl err
      | Inr x \<Rightarrow> (case collect rs of Inl err \<Rightarrow> Inl err | Inr xs \<Rightarrow> Inr (x # xs)))"

definition comprehension :: "(int \<Rightarrow> error + 'x) \<Rightarrow> py_iterable \<Rightarrow> error + 'x list" where
  "comprehension f obj =
     (case py_iter obj of Inl err \<Rightarrow> Inl err | Inr idx \<Rightarrow> collect (map f idx))"

definition translation_segments ::
  "('l, 'a::field) surface \<Rightarrow> ('l, 'a) StraightLineTrajectoryTranslation
     \<Rightarrow> error + ('l, 'a) segment list" where
  "translation_segments S T =
     comprehension (translation_segment S T)
       (PyInt (int (translation_combinatorial_length T)))"

subsection \<open>Comparing the two trajectory classes\<close>







subsection \<open>The contract of the collaborators\<close>










subsection \<open>A concrete surface: the square torus\<close>

text \<open>
  Modelled from the spec: the surface, polygon and tangent-vector collaborators are not
  part of the file. This is the unit square with vertices \<open>(0,0), (1,0), (1,1), (0,1)\<close>,
  edge \<open>i\<close> running from vertex \<open>i\<close> to vertex \<open>i + 1\<close>, opposite edges glued by
  translation (the spec's square torus), over the rationals. It serves as the concrete
  input of the evaluations below.
\<close>

definition square_vertex :: "nat \<Rightarrow> rat vec2" where
  "square_vertex i =
     (if i mod 4 = 0 then (0, 0) else if i mod 4 = 1 then (1, 0)
      else if i mod 4 = 2 then (1, 1) else (0, 1))"

definition square_edge :: "nat \<Rightarrow> rat vec2" where
  "square_edge i = vec_sub (square_vertex (i + 1)) (square_vertex i)"

text \<open>
  Modelled from the spec: the position classification of a point of the closed square
  (vertex, interior of an edge, interior).
\<close>

definition square_position :: "rat vec2 \<Rightarrow> position" where
  "square_position p =
     (let x = fst p; y = snd p in
      if x = 0 \<and> y = 0 then VERTEX 0
      else if x = 1 \<and> y = 0 then VERTEX 1
      else if x = 1 \<and> y = 1 then VERTEX 2
      else if x = 0 \<and> y = 1 then VERTEX 3
      else if y = 0 then EDGE_INTERIOR 0
      else if x = 1 then EDGE_INTERIOR 1
      else if y = 1 then EDGE_INTERIOR 2
      else if x = 0 then EDGE_INTERIOR 3
      else INTERIOR)"

text \<open>
  Modelled from the spec: \<^verbatim>\<open>surface.tangent_vector(label, point, vector)\<close> for a point
  of the closed square and a vector that points into the square.
\<close>

definition torus_tangent_vector ::
  "nat \<Rightarrow> rat vec2 \<Rightarrow> rat vec2 \<Rightarrow> (nat, rat) tangent_vector" where
  "torus_tangent_vector l p v =
     \<lparr>polygon_label = l, point = p, vector = v, position = square_position p\<rparr>"

text \<open>
  Modelled from the spec: \<^verbatim>\<open>forward_to_polygon_boundary()\<close> advances the base point
  along the vector until it meets the boundary of the square and returns the tangent
  vector there, pointing backward. \<open>exit_time\<close> is the parameter at which the ray leaves
  the square.
\<close>

definition axis_time :: "rat \<Rightarrow> rat \<Rightarrow> rat option" where
  "axis_time x dx =
     (if dx > 0 then Some ((1 - x) / dx) else if dx < 0 then Some (x / (- dx)) else None)"

definition exit_time :: "rat vec2 \<Rightarrow> rat vec2 \<Rightarrow> rat" where
  "exit_time p d =
     (case (axis_time (fst p) (fst d), axis_time (snd p) (snd d)) of
        (Some a, Some b) \<Rightarrow> min a b
      | (Some a, None) \<Rightarrow> a
      | (None, Some b) \<Rightarrow> b
      | (None, None) \<Rightarrow> 0)"

definition torus_forward_to_polygon_boundary ::
  "(nat, rat) tangent_vector \<Rightarrow> (nat, rat) tangent_vector" where
  "torus_forward_to_polygon_boundary v =
     torus_tangent_vector (polygon_label v)
       (vec_add (point v) (vec_scale (exit_time (point v) (vector v)) (vector v)))
       (vec_neg (vector v))"

text \<open>
  Modelled from the spec: \<^verbatim>\<open>invert()\<close> of a tangent vector on the interior of an edge
  is the opposite vector at the same point of the surface, seen from the polygon glued to
  that edge; in the interior of the square it is the opposite vector. The collaborator
  does not invert at a vertex, and no evaluation below asks for it.
\<close>

definition torus_invert :: "(nat, rat) tangent_vector \<Rightarrow> (nat, rat) tangent_vector" where
  "torus_invert v =
     (let x = fst (point v); y = snd (point v); w = vec_neg (vector v) in
      case position v of
        EDGE_INTERIOR e \<Rightarrow>
          (if e = 0 then torus_tangent_vector (polygon_label v) (x, 1) w
           else if e = 1 then torus_tangent_vector (polygon_label v) (0, y) w
           else if e = 2 then torus_tangent_vector (polygon_label v) (x, 0) w
           else torus_tangent_vector (polygon_label v) (1, y) w)
      | _ \<Rightarrow> v\<lparr>vector := w\<rparr>)"

text \<open>
  Modelled from the spec: \<^verbatim>\<open>differs_by_scaling\<close> holds for two tangent vectors of the
  same polygon at the same point whose vectors are positive multiples of each other.
\<close>

definition torus_differs_by_scaling ::
  "(nat, rat) tangent_vector \<Rightarrow> (nat, rat) tangent_vector \<Rightarrow> bool" where
  "torus_differs_by_scaling v w =
     (polygon_label v = polygon_label w \<and> point v = point w
      \<and> fst (vector v) * snd (vector w) - snd (vector v) * fst (vector w) = 0
      \<and> fst (vector v) * fst (vector w) + snd (vector v) * snd (vector w) > 0)"

text \<open>
  Modelled from the spec: the interval exchange map of the square for a direction
  \<open>(a, b)\<close> with \<open>a > 0\<close> and \<open>b > 0\<close>. Measured across the direction, the bottom
  interval is edge 3 (length \<open>a\<close>) followed by edge 0 (length \<open>b\<close>), the top interval
  edge 2 (length \<open>b\<close>) followed by edge 1 (length \<open>a\<close>); a point that lands on the
  vertex between two intervals has offset zero in the right-hand one, as the docstring of
  \<^verbatim>\<open>is_saddle_connection\<close> records for the direction \<open>(1, 2)\<close>. Other directions are
  not used.
\<close>

definition square_flow_map :: "rat vec2 \<Rightarrow> rat flow_polygon_map" where
  "square_flow_map d =
     (let a = fst d; b = snd d in
      \<lparr>forward_image = (\<lambda>e x.
           (let g = (if e = 3 then x else a + x)
            in if g < b then (2, g) else (1, g - b))),
        backward_image = (\<lambda>e x.
           (let g = (if e = 2 then x else b + x)
            in if g < a then (3, g) else (0, g - a))),
        length_bot = (\<lambda>e. if e = 3 then a else b),
        length_top = (\<lambda>e. if e = 2 then b else a)\<rparr>)"

definition square_torus :: "(nat, rat) surface" where
  "square_torus =
     \<lparr>forward_to_polygon_boundary = torus_forward_to_polygon_boundary,
       tv_invert = torus_invert,
       differs_by_scaling = torus_differs_by_scaling,
       tangent_vector = torus_tangent_vector,
       opposite_edge = (\<lambda>l e. (l, (e + 2) mod 4)),
       polygon_vertex = (\<lambda>l. square_vertex),
       polygon_edge = (\<lambda>l. square_edge),
       flow_map = (\<lambda>l. square_flow_map)\<rparr>"


subsection \<open>A second concrete surface: the hexagon torus\<close>
















section \<open>Properties\<close>

subsection \<open>The colinearity helper\<close>

lemma get_linearity_coeff_multiple:
  assumes "u \<noteq> (0, 0)"
  shows "get_linearity_coeff u (vec_scale a u) = Inr a"
  using assms by (cases u) (auto simp: get_linearity_coeff_def vec_scale_def Let_def)

lemma get_linearity_coeff_Inr_scale:
  assumes "get_linearity_coeff u v = Inr a"
  shows "v = vec_scale a u"
  using assms
  by (cases u; cases v)
     (auto simp: get_linearity_coeff_def vec_scale_def Let_def split: if_splits)

lemma get_linearity_coeff_cases:
  "get_linearity_coeff u v = Inl (ValueError ''non colinear'')
   \<or> get_linearity_coeff u v = Inl (ValueError ''zero vector'')
   \<or> (\<exists>a. get_linearity_coeff u v = Inr a)"
  by (auto simp: get_linearity_coeff_def Let_def)

lemma get_linearity_coeff_zero_vector_iff:
  "get_linearity_coeff u v = Inl (ValueError ''zero vector'') \<longleftrightarrow> u = (0, 0) \<and> fst v = 0"
  by (cases u) (auto simp: get_linearity_coeff_def Let_def)

text \<open>
  C3 (as stated, refuted): with \<open>u = (0, 0)\<close> and \<open>v = (1, 0)\<close> the helper raises
  the not-colinear error, not the zero-vector error: the test of \<open>v[0]\<close> comes before
  the test of \<open>u[1]\<close>.
\<close>

theorem get_linearity_coeff_zero_u_counterexample:
  "get_linearity_coeff (0, 0) (1, 0 :: rat) = Inl (ValueError ''non colinear'')
   \<and> get_linearity_coeff (0, 0) (1, 0 :: rat) \<noteq> Inl (ValueError ''zero vector'')"
  by (simp add: get_linearity_coeff_def)

text \<open>
  C3 (amended): for \<open>u\<close> nonzero and \<open>v = a * u\<close> the helper returns exactly \<open>a\<close>;
  for \<open>u\<close> nonzero and \<open>v\<close> no scalar multiple of \<open>u\<close> it fails with the
  not-colinear error; for \<open>u = (0, 0)\<close> it fails, with the zero-vector error when the
  first component of \<open>v\<close> is zero and with the not-colinear error otherwise. The helper is
  a pure function of its two arguments.
\<close>

theorem get_linearity_coeff_spec:
  "(u \<noteq> (0, 0) \<and> v = vec_scale a u \<longrightarrow> get_linearity_coeff u v = Inr a)
   \<and> (u \<noteq> (0, 0) \<and> (\<forall>b. v \<noteq> vec_scale b u)
        \<longrightarrow> get_linearity_coeff u v = Inl (ValueError ''non colinear''))
   \<and> (u = (0, 0) \<and> fst v = 0 \<longrightarrow> get_linearity_coeff u v = Inl (ValueError ''zero vector''))
   \<and> (u = (0, 0) \<and> fst v \<noteq> 0 \<longrightarrow> get_linearity_coeff u v = Inl (ValueError ''non colinear''))"
proof (intro conjI impI)
  assume "u \<noteq> (0, 0) \<and> v = vec_scale a u"
  then show "get_linearity_coeff u v = Inr a"
    by (simp add: get_linearity_coeff_multiple)
next
  assume h: "u \<noteq> (0, 0) \<and> (\<forall>b. v \<noteq> vec_scale b u)"
  from get_linearity_coeff_cases [of u v]
  show "get_linearity_coeff u v = Inl (ValueError ''non colinear'')"
  proof (elim disjE exE)
    assume "get_linearity_coeff u v = Inl (ValueError ''zero vector'')"
    with h show ?thesis by (simp add: get_linearity_coeff_zero_vector_iff)
  next
    fix b assume "get_linearity_coeff u v = Inr b"
    then have "v = vec_scale b u" by (rule get_linearity_coeff_Inr_scale)
    with h show ?thesis by blast
  qed
next
  assume "u = (0, 0) \<and> fst v = 0"
  then show "get_linearity_coeff u v = Inl (ValueError ''zero vector'')"
    by (simp add: get_linearity_coeff_zero_vector_iff)
next
  assume "u = (0, 0) \<and> fst v \<noteq> 0"
  then show "get_linearity_coeff u v = Inl (ValueError ''non colinear'')"
    by (simp add: get_linearity_coeff_def)
qed

theorem get_linearity_coeff_spec_witness:
  "get_linearity_coeff (1, 2) (-2, -4 :: rat) = Inr (-2)
   \<and> get_linearity_coeff (1, 1) (-1, 1 :: rat) = Inl (ValueError ''non colinear'')
   \<and> get_linearity_coeff (0, 0) (0, 3 :: rat) = Inl (ValueError ''zero vector'')
   \<and> get_linearity_coeff (0, 0) (5, 3 :: rat) = Inl (ValueError ''non colinear'')"
proof -
  have a: "(1, 2) \<noteq> (0, 0 :: rat) \<and> (-2, -4 :: rat) = vec_scale (-2) (1, 2)"
    by (simp add: vec_scale_def)
  have b: "(1, 1) \<noteq> (0, 0 :: rat) \<and> (\<forall>b. (-1, 1 :: rat) \<noteq> vec_scale b (1, 1))"
    by (auto simp: vec_scale_def)
  have c: "(0, 0) = (0, 0 :: rat) \<and> fst (0 :: rat, 3 :: rat) = 0" by simp
  have d: "(0, 0) = (0, 0 :: rat) \<and> fst (5 :: rat, 3 :: rat) \<noteq> 0" by simp
  note s = get_linearity_coeff_spec
  have "get_linearity_coeff (1, 2) (-2, -4 :: rat) = Inr (-2)"
    by (rule s [THEN conjunct1, THEN mp, OF a])
  moreover have "get_linearity_coeff (1, 1) (-1, 1 :: rat) = Inl (ValueError ''non colinear'')"
    by (rule s [THEN conjunct2, THEN conjunct1, THEN mp, OF b])
  moreover have "get_linearity_coeff (0, 0) (0, 3 :: rat) = Inl (ValueError ''zero vector'')"
    by (rule s [THEN conjunct2, THEN conjunct2, THEN conjunct1, THEN mp, OF c])
  moreover have "get_linearity_coeff (0, 0) (5, 3 :: rat) = Inl (ValueError ''non colinear'')"
    by (rule s [THEN conjunct2, THEN conjunct2, THEN conjunct2, THEN mp, OF d])
  ultimately show ?thesis by (intro conjI)
qed


subsection \<open>Segments\<close>

text \<open>
  C9: for every segment \<open>s\<close>, inverting twice gives a segment equal to \<open>s\<close> under the
  equality of \<^verbatim>\<open>__eq__\<close>, which compares the two start vectors and the two end
  vectors.
\<close>

theorem SegmentInPolygon_invert_invert:
  "segment_eq (SegmentInPolygon_invert S (SegmentInPolygon_invert S s)) s"
  by (simp add: segment_eq_def SegmentInPolygon_invert_def SegmentInPolygon_def)

text \<open>
  C2 (the code departs from the claim): \<^verbatim>\<open>previous()\<close> tests the end of the segment,
  not its start. On the square torus the segment of direction \<open>(1, 2)\<close> through
  \<open>(1/2, 0)\<close> starts in the interior of edge 0 and ends at the vertex \<open>(1, 1)\<close>;
  \<^verbatim>\<open>previous()\<close> raises on it although the start is not based at a vertex.
\<close>

theorem previous_raises_on_singular_end:
  "(let s = SegmentInPolygon square_torus (torus_tangent_vector 0 (1/2, 0) (1, 2)) None
    in \<not> start_is_singular s \<and> end_is_singular s
       \<and> SegmentInPolygon_previous square_torus s
           = Inl (ValueError ''Cannot continue from singularity''))"
  by code_simp

text \<open>
  C5 (the code departs from the claim): on the square torus the segment \<open>s\<close> of direction
  \<open>(1, 2)\<close> through \<open>(1/4, 1/2)\<close> ends in the interior of edge 2, so \<^verbatim>\<open>s.next()\<close>
  succeeds; the next segment ends at the vertex \<open>(1, 1)\<close>, and \<^verbatim>\<open>previous()\<close>, which
  tests that end, raises instead of returning \<open>s\<close>.
\<close>

theorem next_previous_raises:
  "(let s = SegmentInPolygon square_torus (torus_tangent_vector 0 (1/4, 1/2) (1, 2)) None
    in case SegmentInPolygon_next square_torus s of
         Inl err \<Rightarrow> False
       | Inr s' \<Rightarrow> SegmentInPolygon_previous square_torus s'
                     = Inl (ValueError ''Cannot continue from singularity''))"
  by code_simp

subsection \<open>StraightLineTrajectory\<close>

lemma setup_forward_segments [simp]: "segments (setup_forward S t) = segments t"
  by (simp add: setup_forward_def Let_def)

lemma setup_backward_segments [simp]: "segments (setup_backward S t) = segments t"
  by (simp add: setup_backward_def Let_def)

lemma StraightLineTrajectory_init_nonempty:
  "segments (StraightLineTrajectory_init S v) \<noteq> []"
  by (simp add: StraightLineTrajectory_init_def)

lemma flow_forward_loop_nonempty:
  "segments t \<noteq> [] \<Longrightarrow> segments (fst (flow_forward_loop S t steps)) \<noteq> []"
proof (induction S t steps rule: flow_forward_loop.induct)
  case (1 S t steps)
  show ?case
  proof (cases "steps > 0 \<and> \<not> is_forward_separatrix t \<and> \<not> is_closed S t")
    case True
    then obtain f where f: "forward t = Some f"
      by (auto simp: is_forward_separatrix_def)
    from "1.IH" [OF True f] True f show ?thesis
      by (subst flow_forward_loop.simps) simp
  next
    case False
    with "1.prems" show ?thesis by (subst flow_forward_loop.simps) auto
  qed
qed

lemma flow_backward_loop_nonempty:
  "segments t \<noteq> [] \<Longrightarrow> segments (fst (flow_backward_loop S t steps)) \<noteq> []"
proof (induction S t steps rule: flow_backward_loop.induct)
  case (1 S t steps)
  show ?case
  proof (cases "steps < 0 \<and> \<not> is_backward_separatrix t \<and> \<not> is_closed S t")
    case True
    then obtain b where b: "backward t = Some b"
      by (auto simp: is_backward_separatrix_def)
    from "1.IH" [OF True b] True b show ?thesis
      by (subst flow_backward_loop.simps) simp
  next
    case False
    with "1.prems" show ?thesis by (subst flow_backward_loop.simps) auto
  qed
qed

lemma StraightLineTrajectory_flow_nonempty:
  "segments t \<noteq> [] \<Longrightarrow> segments (StraightLineTrajectory_flow S t steps) \<noteq> []"
  using flow_forward_loop_nonempty [of t S steps]
        flow_backward_loop_nonempty [of "fst (flow_forward_loop S t steps)" S
           "snd (flow_forward_loop S t steps)"]
  by (simp add: StraightLineTrajectory_flow_def split_beta)

lemma flow_forward_loop_stop:
  "is_forward_separatrix t \<or> is_closed S t \<Longrightarrow> flow_forward_loop S t steps = (t, steps)"
  by auto

lemma flow_backward_loop_stop:
  "is_backward_separatrix t \<or> is_closed S t \<Longrightarrow> flow_backward_loop S t steps = (t, steps)"
  by auto

lemma flow_forward_loop_nonpositive:
  "steps \<le> 0 \<Longrightarrow> flow_forward_loop S t steps = (t, steps)"
  by auto

lemma saddle_connection_flow:
  assumes "is_saddle_connection t"
  shows "StraightLineTrajectory_flow S t steps = t"
proof -
  from assms have "is_forward_separatrix t" and "is_backward_separatrix t"
    by (simp_all add: is_saddle_connection_def is_forward_separatrix_def
        is_backward_separatrix_def)
  then show ?thesis
    by (simp add: StraightLineTrajectory_flow_def flow_forward_loop_stop
        flow_backward_loop_stop del: flow_forward_loop.simps flow_backward_loop.simps)
qed

text \<open>
  C6: when \<^verbatim>\<open>is_closed()\<close> holds, \<^verbatim>\<open>flow(n)\<close> with \<open>n > 0\<close> leaves
  \<^verbatim>\<open>combinatorial_length()\<close> unchanged; no segment is appended.
\<close>

theorem flow_closed_unchanged:
  assumes "is_closed S t" and "0 < n"
  shows "combinatorial_length (StraightLineTrajectory_flow S t n) = combinatorial_length t
         \<and> segments (StraightLineTrajectory_flow S t n) = segments t"
  using assms
  by (simp add: StraightLineTrajectory_flow_def flow_forward_loop_stop
      flow_backward_loop_stop del: flow_forward_loop.simps flow_backward_loop.simps)

theorem flow_closed_unchanged_witness:
  "(let t = StraightLineTrajectory_flow square_torus
              (StraightLineTrajectory_init square_torus
                 (torus_tangent_vector 0 (1/5, 1/7) (1, 1))) 10
    in is_closed square_torus t \<and> combinatorial_length t = 2
       \<and> combinatorial_length (StraightLineTrajectory_flow square_torus t 3) = 2)"
proof -
  let ?t = "StraightLineTrajectory_flow square_torus
              (StraightLineTrajectory_init square_torus
                 (torus_tangent_vector 0 (1/5, 1/7) (1, 1))) 10"
  have c: "is_closed square_torus ?t" by code_simp
  have l: "combinatorial_length ?t = 2" by code_simp
  from flow_closed_unchanged [OF c, of 3] l c show ?thesis by (simp add: Let_def)
qed

subsection \<open>StraightLineTrajectoryTranslation\<close>

lemma next_triple_points [simp]:
  "next_triple S (T\<lparr>points := ps\<rparr>) = next_triple S T"
  by (rule ext) (simp add: next_triple_def get_iet_def)

lemma appended_0 [simp]: "appended S T t 0 = []"
  by (simp add: appended_def)

lemma appended_Suc:
  "appended S T t (Suc k) = next_triple S T t # appended S T (next_triple S T t) k"
proof -
  have "[0 ..< Suc k] = 0 # map Suc [0 ..< k]"
    by (simp add: upt_conv_Cons map_Suc_upt del: upt_Suc)
  then show ?thesis
    by (simp add: appended_def funpow_swap1 comp_def del: upt_Suc)
qed

lemma appended_points [simp]: "appended S (T\<lparr>points := ps\<rparr>) t k = appended S T t k"
  by (simp add: appended_def)

lemma translation_flow_forward_char:
  assumes "points T \<noteq> []"
  shows "\<exists>k\<le>n. translation_flow_forward S T t n
            = (T\<lparr>points := points T @ appended S T t k\<rparr>, min (Suc k) n)
          \<and> (\<forall>u \<in> set (appended S T t k). u \<noteq> hd (points T) \<and> offset u \<noteq> 0)
          \<and> (k < n \<longrightarrow> (next_triple S T ^^ Suc k) t = hd (points T)
                          \<or> offset ((next_triple S T ^^ Suc k) t) = 0)"
  using assms
proof (induction n arbitrary: T t)
  case 0
  then show ?case by simp
next
  case (Suc n)
  let ?t' = "next_triple S T t"
  show ?case
  proof (cases "?t' = hd (points T) \<or> offset ?t' = 0")
    case True
    then have "translation_flow_forward S T t (Suc n) = (T, 1)" by simp
    with True show ?thesis by (intro exI [of _ 0]) auto
  next
    case False
    let ?T' = "T\<lparr>points := points T @ [?t']\<rparr>"
    have ne: "points ?T' \<noteq> []" by simp
    have hd': "hd (points ?T') = hd (points T)" using Suc.prems by simp
    from Suc.IH [OF ne, of ?t'] obtain k where k: "k \<le> n"
      and r: "translation_flow_forward S ?T' ?t' n
               = (?T'\<lparr>points := points ?T' @ appended S ?T' ?t' k\<rparr>, min (Suc k) n)"
      and g: "\<forall>u \<in> set (appended S ?T' ?t' k). u \<noteq> hd (points ?T') \<and> offset u \<noteq> 0"
      and b: "k < n \<longrightarrow> (next_triple S ?T' ^^ Suc k) ?t' = hd (points ?T')
                          \<or> offset ((next_triple S ?T' ^^ Suc k) ?t') = 0"
      by blast
    have "translation_flow_forward S T t (Suc n)
            = (T\<lparr>points := points T @ appended S T t (Suc k)\<rparr>, min (Suc (Suc k)) (Suc n))"
      using False r by (simp add: appended_Suc Let_def)
    moreover have "\<forall>u \<in> set (appended S T t (Suc k)). u \<noteq> hd (points T) \<and> offset u \<noteq> 0"
      using False g hd' by (simp add: appended_Suc)
    moreover have "Suc k < Suc n \<longrightarrow> (next_triple S T ^^ Suc (Suc k)) t = hd (points T)
                          \<or> offset ((next_triple S T ^^ Suc (Suc k)) t) = 0"
      using b hd' by (simp add: funpow_swap1)
    ultimately show ?thesis using k by (intro exI [of _ "Suc k"]) simp
  qed
qed

lemma StraightLineTrajectoryTranslation_init_points:
  "StraightLineTrajectoryTranslation_init S v = Inr T \<Longrightarrow> length (points T) = 1"
  by (auto simp: StraightLineTrajectoryTranslation_init_def split: sum.splits)

lemma translation_saddle_connection_flow:
  assumes "translation_is_saddle_connection S T"
  shows "StraightLineTrajectoryTranslation_flow S T steps = T"
proof -
  from assms have f: "offset (next_triple S T (last (points T))) = 0"
    and b: "offset (hd (points T)) = 0"
    by (simp_all add: translation_is_saddle_connection_def
        translation_is_forward_separatrix_def translation_is_backward_separatrix_def)
  consider "steps > 0" | "steps < 0" | "steps = 0" by linarith
  then show ?thesis
  proof cases
    case 1
    then obtain n where n: "nat steps = Suc n" by (cases "nat steps") auto
    with 1 f show ?thesis
      by (simp add: StraightLineTrajectoryTranslation_flow_def translation_flow_counted_def)
  next
    case 2
    then obtain n where n: "nat (- steps) = Suc n" by (cases "nat (- steps)") auto
    with 2 b show ?thesis
      by (simp add: StraightLineTrajectoryTranslation_flow_def translation_flow_counted_def)
  next
    case 3
    then show ?thesis
      by (simp add: StraightLineTrajectoryTranslation_flow_def translation_flow_counted_def)
  qed
qed

text \<open>
  C7: for a trajectory of either class on which \<^verbatim>\<open>is_saddle_connection()\<close> holds,
  \<^verbatim>\<open>flow(steps)\<close> returns the trajectory as it was, for every \<open>steps\<close>, positive,
  negative or zero. The functions of the model are total: no branch of either \<^verbatim>\<open>flow\<close>
  raises.
\<close>

theorem saddle_connection_flow_noop:
  "(is_saddle_connection t \<longrightarrow> StraightLineTrajectory_flow S t steps = t)
   \<and> (translation_is_saddle_connection S' T
        \<longrightarrow> StraightLineTrajectoryTranslation_flow S' T steps' = T)"
  by (simp add: saddle_connection_flow translation_saddle_connection_flow)

theorem saddle_connection_flow_noop_witness:
  "(let t = StraightLineTrajectory_init square_torus (torus_tangent_vector 0 (1/2, 1/2) (1, 1));
        T = \<lparr>direction = (1, 1), points = [(0, 0, 0)]\<rparr>
    in is_saddle_connection t
       \<and> StraightLineTrajectory_flow square_torus t 4 = t
       \<and> StraightLineTrajectoryTranslation_init square_torus
            (torus_tangent_vector 0 (1/2, 1/2) (1, 1)) = Inr T
       \<and> translation_is_saddle_connection square_torus T
       \<and> StraightLineTrajectoryTranslation_flow square_torus T (- 4) = T)"
proof -
  let ?t = "StraightLineTrajectory_init square_torus (torus_tangent_vector 0 (1/2, 1/2) (1, 1))"
  let ?T = "\<lparr>direction = (1, 1), points = [(0 :: nat, 0 :: nat, 0 :: rat)]\<rparr>"
  have a: "is_saddle_connection ?t" by code_simp
  have b: "translation_is_saddle_connection square_torus ?T" by code_simp
  have c: "StraightLineTrajectoryTranslation_init square_torus
            (torus_tangent_vector 0 (1/2, 1/2) (1, 1)) = Inr ?T" by code_simp
  note n = saddle_connection_flow_noop [of ?t square_torus 4 square_torus ?T "- 4"]
  from n a have "StraightLineTrajectory_flow square_torus ?t 4 = ?t" by blast
  moreover from n b have "StraightLineTrajectoryTranslation_flow square_torus ?T (- 4) = ?T"
    by blast
  ultimately show ?thesis using a b c by (simp add: Let_def)
qed

text \<open>
  C8: for \<open>steps > 0\<close>, \<^verbatim>\<open>flow(steps)\<close> returns (it raises nowhere) after calling
  \<^verbatim>\<open>_next\<close> at most \<open>steps\<close> times. It appends the first \<open>k\<close> images of the last
  stored triple, for some \<open>k \<le> steps\<close>; none of them equals the first stored triple and
  none has offset zero; and when \<open>k < steps\<close> the loop stopped early because the next
  image, which is not appended, equals the first stored triple or has offset zero.
\<close>

theorem translation_flow_positive_spec:
  assumes "points T \<noteq> []" and "0 < steps"
  shows "\<exists>k \<le> nat steps.
           translation_flow_counted S T steps
             = (T\<lparr>points := points T @ appended S T (last (points T)) k\<rparr>, min (Suc k) (nat steps))
         \<and> snd (translation_flow_counted S T steps) \<le> nat steps
         \<and> (\<forall>u \<in> set (appended S T (last (points T)) k). u \<noteq> hd (points T) \<and> offset u \<noteq> 0)
         \<and> (k < nat steps \<longrightarrow>
              (next_triple S T ^^ Suc k) (last (points T)) = hd (points T)
              \<or> offset ((next_triple S T ^^ Suc k) (last (points T))) = 0)"
proof -
  from translation_flow_forward_char [OF assms(1), of "nat steps" S "last (points T)"]
  obtain k where "k \<le> nat steps"
    and "translation_flow_forward S T (last (points T)) (nat steps)
            = (T\<lparr>points := points T @ appended S T (last (points T)) k\<rparr>, min (Suc k) (nat steps))"
    and "\<forall>u \<in> set (appended S T (last (points T)) k). u \<noteq> hd (points T) \<and> offset u \<noteq> 0"
    and "k < nat steps \<longrightarrow> (next_triple S T ^^ Suc k) (last (points T)) = hd (points T)
                          \<or> offset ((next_triple S T ^^ Suc k) (last (points T))) = 0"
    by blast
  then show ?thesis using assms(2)
    by (intro exI [of _ k]) (simp add: translation_flow_counted_def)
qed

theorem translation_flow_positive_spec_witness:
  "(let T = \<lparr>direction = (1, 2), points = [(0 :: nat, 0 :: nat, 0 :: rat)]\<rparr>
    in points T \<noteq> [] \<and> (0 :: int) < 5
       \<and> translation_flow_counted square_torus T 5
            = (\<lparr>direction = (1, 2), points = [(0, 0, 0), (0, 0, 1)]\<rparr>, 2)
       \<and> snd (translation_flow_counted square_torus T 5) \<le> nat 5)"
proof -
  let ?T = "\<lparr>direction = (1 :: rat, 2 :: rat), points = [(0 :: nat, 0 :: nat, 0 :: rat)]\<rparr>"
  have ne: "points ?T \<noteq> []" by simp
  have pos: "(0 :: int) < 5" by simp
  have v: "translation_flow_counted square_torus ?T 5
            = (\<lparr>direction = (1, 2), points = [(0, 0, 0), (0, 0, 1)]\<rparr>, 2)"
    by code_simp
  from translation_flow_positive_spec [OF ne pos, of square_torus]
  have "snd (translation_flow_counted square_torus ?T 5) \<le> nat 5" by blast
  with ne pos v show ?thesis by (simp add: Let_def)
qed

text \<open>
  C10: \<^verbatim>\<open>segments()\<close> of a \<^verbatim>\<open>StraightLineTrajectoryTranslation\<close> iterates over the
  integer \<^verbatim>\<open>combinatorial_length()\<close> and so raises \<^verbatim>\<open>TypeError\<close> for every
  trajectory; it never returns a list.
\<close>

theorem translation_segments_raises:
  "translation_segments S T = Inl (TypeError ''int object is not iterable'')"
  by (simp add: translation_segments_def comprehension_def py_iter_def)

text \<open>
  C4 (as stated, refuted): on the square torus the trajectory of direction \<open>(1, 2)\<close>
  from \<open>(1/2, 0)\<close> stores the single triple \<open>(0, 0, 1)\<close>. One backward step from it
  lands at offset zero, yet \<^verbatim>\<open>is_backward_separatrix()\<close> is false: the method looks
  at the stored triple, not at its preimage.
\<close>

theorem backward_separatrix_counterexample:
  "(let T = \<lparr>direction = (1, 2), points = [(0, 0, 1)]\<rparr>
    in StraightLineTrajectoryTranslation_init square_torus
         (torus_tangent_vector 0 (1/2, 0) (1, 2)) = Inr T
       \<and> offset (previous_triple square_torus T (hd (points T))) = 0
       \<and> \<not> translation_is_backward_separatrix T)"
  by code_simp

text \<open>
  C4 (amended): \<^verbatim>\<open>is_backward_separatrix()\<close> is true exactly when the first stored
  triple itself has offset zero (no backward step is taken), whereas
  \<^verbatim>\<open>is_forward_separatrix()\<close> is true exactly when one more forward step
  (\<^verbatim>\<open>_next\<close>) from the last stored triple lands at offset zero.
\<close>

theorem translation_separatrix_tests:
  "(translation_is_backward_separatrix T \<longleftrightarrow> offset (hd (points T)) = 0)
   \<and> (translation_is_forward_separatrix S T
        \<longleftrightarrow> offset (next_triple S T (last (points T))) = 0)"
  by (simp add: translation_is_backward_separatrix_def translation_is_forward_separatrix_def)



subsection \<open>Agreement of the two trajectory classes\<close>

text \<open>
  From here on the loop equations are unfolded by hand: as rewrite rules they apply to
  their own right-hand sides.
\<close>

declare flow_forward_loop.simps [simp del] flow_backward_loop.simps [simp del]
declare translation_flow_forward.simps(2) [simp del]

















subsection \<open>From the contract of the collaborators to step consistency\<close>
































end
